theory Spec2Isabelle
  imports Complex_Main
begin

section \<open>Strings\<close>

text \<open>
  Text on the wire is ASCII (the line is configured for 7 data bits), so a JavaScript
  string is modelled as a \<^typ>\<open>string\<close>, one \<^typ>\<open>char\<close> per code unit. The functions
  below are the methods of \<^verbatim>\<open>String.prototype\<close> that the driver calls.
\<close>

definition CR :: char where
  "CR = CHR 0x0D"

definition LF :: char where
  "LF = CHR 0x0A"

definition CRLF :: string where
  "CRLF = [CR, LF]"

definition isWhiteSpace :: "char \<Rightarrow> bool" where
  \<comment> \<open>WhiteSpace and LineTerminator code units below 256: TAB, LF, VT, FF, CR, SP, NBSP.\<close>
  "isWhiteSpace c = (c = CHR 0x09 \<or> c = CHR 0x0A \<or> c = CHR 0x0B \<or> c = CHR 0x0C
                     \<or> c = CHR 0x0D \<or> c = CHR 0x20 \<or> c = CHR 0xA0)"

definition trimStart :: "string \<Rightarrow> string" where
  "trimStart s = dropWhile isWhiteSpace s"

definition trimEnd :: "string \<Rightarrow> string" where
  "trimEnd s = rev (dropWhile isWhiteSpace (rev s))"

definition trim :: "string \<Rightarrow> string" where
  "trim s = trimEnd (trimStart s)"

definition endsWith :: "string \<Rightarrow> string \<Rightarrow> bool" where
  "endsWith s t = (length t \<le> length s \<and> drop (length s - length t) s = t)"

definition startsWith :: "string \<Rightarrow> string \<Rightarrow> bool" where
  "startsWith s t = (take (length t) s = t)"

fun split_comma :: "string \<Rightarrow> string list" where
  \<comment> \<open>\<^verbatim>\<open>s.split(",")\<close>: one more field than there are commas.\<close>
  "split_comma [] = ['''']"
| "split_comma (c # cs) =
     (if c = CHR '','' then [] # split_comma cs
      else (case split_comma cs of
              [] \<Rightarrow> [c # []]
            | f # fs \<Rightarrow> (c # f) # fs))"

definition replace_plus :: "string \<Rightarrow> string" where
  \<comment> \<open>\<^verbatim>\<open>s.replace("+", "")\<close>: a string pattern replaces its first occurrence only.\<close>
  "replace_plus s = remove1 (CHR ''+'') s"

section \<open>Numbers\<close>

text \<open>
  A JavaScript number is modelled by its mathematical value: \<open>Fin v\<close> for a finite
  value, and the three special values. Arithmetic on \<open>Fin\<close> is exact, so the rounding of
  binary64, overflow to an infinity and the sign of zero are outside the model; the
  inputs evaluated below (small integers and short decimals) are handled by the runtime
  as they are here.
\<close>

datatype number = Fin real | NaN | PosInfinity | NegInfinity

fun add :: "number \<Rightarrow> number \<Rightarrow> number" where
  \<comment> \<open>the operator \<^verbatim>\<open>+\<close> on two numbers\<close>
  "add (Fin a) (Fin b) = Fin (a + b)"
| "add NaN _ = NaN"
| "add _ NaN = NaN"
| "add PosInfinity NegInfinity = NaN"
| "add NegInfinity PosInfinity = NaN"
| "add PosInfinity _ = PosInfinity"
| "add _ PosInfinity = PosInfinity"
| "add NegInfinity _ = NegInfinity"
| "add _ NegInfinity = NegInfinity"

fun lt :: "number \<Rightarrow> number \<Rightarrow> bool" where
  \<comment> \<open>the operator \<^verbatim>\<open><\<close>; every comparison with NaN is false\<close>
  "lt (Fin a) (Fin b) = (a < b)"
| "lt NaN _ = False"
| "lt _ NaN = False"
| "lt PosInfinity _ = False"
| "lt _ NegInfinity = False"
| "lt _ PosInfinity = True"
| "lt NegInfinity _ = True"

definition gt :: "number \<Rightarrow> number \<Rightarrow> bool" where
  "gt a b = lt b a"

fun Math_floor :: "number \<Rightarrow> number" where
  "Math_floor (Fin v) = Fin (of_int \<lfloor>v\<rfloor>)"
| "Math_floor n = n"

fun isNaN :: "number \<Rightarrow> bool" where
  "isNaN NaN = True"
| "isNaN _ = False"

subsection \<open>Numbers to text\<close>

definition digit :: "nat \<Rightarrow> char" where
  "digit d = ''0123456789'' ! (d mod 10)"

fun decimal :: "nat \<Rightarrow> string" where
  "decimal n = (if n < 10 then [digit n] else decimal (n div 10) @ [digit n])"

declare decimal.simps [simp del]

fun fraction_digits :: "nat \<Rightarrow> real \<Rightarrow> string" where
  \<comment> \<open>the decimal digits of a fraction in [0, 1), at most as many as the first argument\<close>
  "fraction_digits 0 f = []"
| "fraction_digits (Suc k) f =
     (if f = 0 then []
      else digit (nat \<lfloor>f * 10\<rfloor>) # fraction_digits k (f * 10 - of_int \<lfloor>f * 10\<rfloor>))"

fun ToString :: "number \<Rightarrow> string" where
  \<comment> \<open>The conversion of a template literal, \<^verbatim>\<open>`${n}`\<close>. Positional notation is what the
      runtime prints for an integer below \<open>10^21\<close> and for a short decimal; beyond that
      the runtime's digits depend on the binary64 value and are not modelled.\<close>
  "ToString NaN = ''NaN''"
| "ToString PosInfinity = ''Infinity''"
| "ToString NegInfinity = ''-Infinity''"
| "ToString (Fin v) =
     (if v < 0 then ''-'' else '''') @ decimal (nat \<lfloor>\<bar>v\<bar>\<rfloor>)
     @ (if \<bar>v\<bar> = of_int \<lfloor>\<bar>v\<bar>\<rfloor> then ''''
        else ''.'' @ fraction_digits 20 (\<bar>v\<bar> - of_int \<lfloor>\<bar>v\<bar>\<rfloor>))"

fun toFixed1 :: "number \<Rightarrow> string" where
  \<comment> \<open>\<^verbatim>\<open>n.toFixed(1)\<close>: the integer \<open>k\<close> with \<open>k / 10\<close> nearest to the magnitude, the
      larger one of two, printed with one digit after the point.\<close>
  "toFixed1 (Fin v) =
     (if \<bar>v\<bar> \<ge> 10 ^ 21 then ToString (Fin v)
      else (let k = nat \<lfloor>\<bar>v\<bar> * 10 + 1 / 2\<rfloor>
            in (if v < 0 then ''-'' else '''') @ decimal (k div 10) @ ''.'' @ [digit k]))"
| "toFixed1 n = ToString n"

definition fmt :: "number \<Rightarrow> string" where
  "fmt v = toFixed1 v"

subsection \<open>Text to numbers\<close>

definition isDigit :: "char \<Rightarrow> bool" where
  "isDigit c = (c \<in> set ''0123456789'')"

definition digit_value :: "char \<Rightarrow> nat" where
  "digit_value c = of_char c - 48"

definition digits_value :: "string \<Rightarrow> nat" where
  "digits_value ds = foldl (\<lambda>a c. 10 * a + digit_value c) 0 ds"

definition signed_integer :: "string \<Rightarrow> int" where
  \<comment> \<open>the digits after an exponent indicator, 0 when there are none\<close>
  "signed_integer s =
     (if startsWith s ''-'' then - int (digits_value (takeWhile isDigit (tl s)))
      else if startsWith s ''+'' then int (digits_value (takeWhile isDigit (tl s)))
      else int (digits_value (takeWhile isDigit s)))"

definition exponent_part :: "string \<Rightarrow> int" where
  "exponent_part s =
     (if startsWith s ''e'' \<or> startsWith s ''E'' then signed_integer (tl s) else 0)"

definition scale10 :: "real \<Rightarrow> int \<Rightarrow> real" where
  "scale10 m e = (if 0 \<le> e then m * 10 ^ nat e else m / 10 ^ nat (- e))"

definition parseFloat :: "string \<Rightarrow> number" where
  \<comment> \<open>The value of the longest prefix, after leading white space, that is a decimal
      literal: sign, digits, fraction, exponent; NaN when there is none.\<close>
  "parseFloat s =
     (let t = trimStart s;
          neg = startsWith t ''-'';
          u = (if startsWith t ''-'' \<or> startsWith t ''+'' then tl t else t)
      in if startsWith u ''Infinity'' then (if neg then NegInfinity else PosInfinity)
         else
           (let ip = takeWhile isDigit u;
                r1 = dropWhile isDigit u;
                fp = (if startsWith r1 ''.'' then takeWhile isDigit (tl r1) else []);
                r2 = (if startsWith r1 ''.'' then dropWhile isDigit (tl r1) else r1)
            in if ip = [] \<and> fp = [] then NaN
               else Fin ((if neg then - 1 else 1)
                         * scale10 (real (digits_value (ip @ fp)) / 10 ^ length fp)
                             (exponent_part r2))))"

definition parseInt10 :: "string \<Rightarrow> number" where
  \<comment> \<open>\<^verbatim>\<open>parseInt(s, 10)\<close>: sign and leading digits after leading white space.\<close>
  "parseInt10 s =
     (let t = trimStart s;
          neg = startsWith t ''-'';
          u = (if startsWith t ''-'' \<or> startsWith t ''+'' then tl t else t);
          z = takeWhile isDigit u
      in if z = [] then NaN
         else Fin ((if neg then - 1 else 1) * real (digits_value z)))"

section \<open>Data model\<close>

text \<open>The type \<^verbatim>\<open>Position\<close>; the fields \<^verbatim>\<open>x, y, z, p, r\<close> carry a prefix here.\<close>

record Position =
  pos_x :: number
  pos_y :: number
  pos_z :: number
  pos_p :: number
  pos_r :: number

datatype ROBOT_ERRORS = HARDWARE_ERROR | COMMAND_ERROR | UNKNOWN_ERROR

text \<open>
  The errors thrown, named after the spec's taxonomy:
  \<^item> \<open>PortNotOpen\<close> is \<^verbatim>\<open>Error("Port is not open")\<close>;
  \<^item> \<open>WriteFailed\<close> is the error the transport hands to the write callback;
  \<^item> \<open>NoCachedPose\<close> is \<^verbatim>\<open>Error("Actual position not set")\<close>;
  \<^item> \<open>MalformedResponse\<close> is \<^verbatim>\<open>Error("Invalid position response format")\<close>;
  \<^item> \<open>ValidationError\<close> is \<^verbatim>\<open>Error("Speed must be between 0 and 9")\<close>;
  \<^item> \<open>CommandError e\<close> is \<^verbatim>\<open>Error(`Command errored: ${e}`)\<close>.
\<close>

datatype error =
    PortNotOpen
  | WriteFailed
  | NoCachedPose
  | MalformedResponse
  | ValidationError
  | CommandError ROBOT_ERRORS

datatype 'a promise = Pending | Fulfilled 'a | Rejected error

fun resolve :: "'a \<Rightarrow> 'a promise \<Rightarrow> 'a promise" where
  \<comment> \<open>settling a settled promise again has no effect\<close>
  "resolve v Pending = Fulfilled v"
| "resolve v q = q"

fun reject :: "error \<Rightarrow> 'a promise \<Rightarrow> 'a promise" where
  "reject e Pending = Rejected e"
| "reject e q = q"

text \<open>
  The closure that \<^verbatim>\<open>sendCommandWithAnswer\<close> registers with \<^verbatim>\<open>port.on("data", ...)\<close>: its
  own \<^verbatim>\<open>stringBuffer\<close>, the promise it settles, and the arguments of its calls of
  \<^verbatim>\<open>resolve\<close> so far, oldest first.
\<close>

record listener =
  stringBuffer :: string
  responses :: "string list"
  answer :: "string promise"

record SerialPort =
  isOpen :: bool
  listeners :: "listener list"

datatype effect = Write string | Delay nat

type_synonym address = nat

text \<open>
  The fields of the class \<^verbatim>\<open>Robot\<close>, and two components of the world around it:
  \<open>objects\<close> is the store of \<^verbatim>\<open>Position\<close> objects (\<open>position\<close> and every returned
  position are references into it), \<open>effects\<close> the bytes written to the port and the
  timers awaited, in order.
\<close>

record Robot =
  port :: "SerialPort option"
  position :: "address option"
  toolIsOpen :: bool
  toolLength :: number
  speed :: number
  portIsOpen :: bool
  objects :: "Position list"
  effects :: "effect list"

text \<open>
  What the transport does while a call is suspended: a chunk of text arrives, or the
  write callback of the \<open>k\<close>-th registered request reports an error.
\<close>

datatype event = Data string | WriteError nat

section \<open>The command channel\<close>

text \<open>
  An async method is a function from the robot to the state of the promise it returns
  and the robot it leaves behind; \<open>Pending\<close> is a promise that is never settled, so that
  the caller is never resumed. The methods of one robot run one after the other: no
  other call runs while a method is suspended, except where a request is left pending
  explicitly.
\<close>

definition await :: "'a promise \<times> Robot \<Rightarrow> ('a \<Rightarrow> Robot \<Rightarrow> 'b promise \<times> Robot)
    \<Rightarrow> 'b promise \<times> Robot" where
  \<comment> \<open>\<^verbatim>\<open>const v = await m; ...\<close> in an async function\<close>
  "await m k =
     (case m of
        (Fulfilled v, s) \<Rightarrow> k v s
      | (Rejected e, s) \<Rightarrow> (Rejected e, s)
      | (Pending, s) \<Rightarrow> (Pending, s))"

definition checkPortOpen :: "Robot \<Rightarrow> bool" where
  \<comment> \<open>true when the check passes, false when it throws\<close>
  "checkPortOpen s = (case port s of None \<Rightarrow> False | Some pt \<Rightarrow> isOpen pt)"

definition port_write :: "string \<Rightarrow> Robot \<Rightarrow> Robot" where
  "port_write bytes s = s\<lparr>effects := effects s @ [Write bytes]\<rparr>"

definition delay :: "nat \<Rightarrow> Robot \<Rightarrow> Robot" where
  "delay ms s = s\<lparr>effects := effects s @ [Delay ms]\<rparr>"

definition sendCommandNoAnswer :: "string \<Rightarrow> Robot \<Rightarrow> unit promise \<times> Robot" where
  "sendCommandNoAnswer command s =
     (if \<not> checkPortOpen s then (Rejected PortNotOpen, s)
      else (Fulfilled (), delay 100 (port_write (command @ CRLF) s)))"

definition on_data :: "string \<Rightarrow> listener \<Rightarrow> listener" where
  \<comment> \<open>the body of the listener, called with one chunk\<close>
  "on_data data l =
     (let buf = stringBuffer l @ data
      in if endsWith buf CRLF
         then l\<lparr>stringBuffer := [],
                responses := responses l @ [trim buf],
                answer := resolve (trim buf) (answer l)\<rparr>
         else l\<lparr>stringBuffer := buf\<rparr>)"

definition new_listener :: listener where
  "new_listener = \<lparr>stringBuffer = [], responses = [], answer = Pending\<rparr>"

fun emit :: "event \<Rightarrow> SerialPort \<Rightarrow> SerialPort" where
  \<comment> \<open>a chunk is handed to every listener, in the order of registration\<close>
  "emit (Data d) pt = pt\<lparr>listeners := map (on_data d) (listeners pt)\<rparr>"
| "emit (WriteError k) pt =
     (if k < length (listeners pt)
      then pt\<lparr>listeners := (listeners pt)
             [k := (listeners pt ! k)\<lparr>answer := reject WriteFailed (answer (listeners pt ! k))\<rparr>]\<rparr>
      else pt)"

definition occur :: "event \<Rightarrow> Robot \<Rightarrow> Robot" where
  "occur e s = s\<lparr>port := map_option (emit e) (port s)\<rparr>"

text \<open>
  The promise that \<^verbatim>\<open>sendCommandWithAnswer\<close> returns: rejected inside the executor, or
  settled by the listener registered at the given index.
\<close>

datatype request = Failed error | Waiting nat

definition state_of :: "request \<Rightarrow> Robot \<Rightarrow> string promise" where
  "state_of h s =
     (case h of
        Failed e \<Rightarrow> Rejected e
      | Waiting k \<Rightarrow>
          (case port s of
             None \<Rightarrow> Pending
           | Some pt \<Rightarrow> if k < length (listeners pt) then answer (listeners pt ! k) else Pending))"

fun wait_for :: "request \<Rightarrow> event list \<Rightarrow> Robot \<Rightarrow> string promise \<times> Robot" where
  \<comment> \<open>Awaiting the promise: events are taken until it is settled. When they run out
      first, the caller stays suspended: \<open>Pending\<close>.\<close>
  "wait_for h [] s = (state_of h s, s)"
| "wait_for h (e # es) s =
     (case state_of h s of
        Pending \<Rightarrow> wait_for h es (occur e s)
      | Fulfilled v \<Rightarrow> (Fulfilled v, s)
      | Rejected err \<Rightarrow> (Rejected err, s))"

definition sendCommandWithAnswer :: "string \<Rightarrow> Robot \<Rightarrow> request \<times> Robot" where
  \<comment> \<open>The executor: check, write, register a listener. A throw inside it rejects
      the promise.\<close>
  "sendCommandWithAnswer command s =
     (case port s of
        None \<Rightarrow> (Failed PortNotOpen, s)
      | Some pt \<Rightarrow>
          if \<not> isOpen pt then (Failed PortNotOpen, s)
          else (Waiting (length (listeners pt)),
                (port_write (command @ CRLF) s)
                  \<lparr>port := Some (pt\<lparr>listeners := listeners pt @ [new_listener]\<rparr>)\<rparr>))"

datatype check = ok_true | ok_false ROBOT_ERRORS

definition checkRobotErrorCode :: "event list \<Rightarrow> Robot \<Rightarrow> check promise \<times> Robot" where
  "checkRobotErrorCode evs s =
     (if \<not> checkPortOpen s then (Rejected PortNotOpen, s)
      else
        (case sendCommandWithAnswer ''ER'' s of
           (h, s1) \<Rightarrow>
             await (wait_for h evs s1) (\<lambda>res s2.
               (let errorCode = parseInt10 res
                in if isNaN errorCode then (Fulfilled (ok_false UNKNOWN_ERROR), s2)
                   else if errorCode = Fin 0 then (Fulfilled ok_true, s2)
                   else if errorCode = Fin 1 then (Fulfilled (ok_false HARDWARE_ERROR), s2)
                   else if errorCode = Fin 2 then (Fulfilled (ok_false COMMAND_ERROR), s2)
                   else (Fulfilled (ok_false UNKNOWN_ERROR), s2)))))"

section \<open>Operations of the robot\<close>

definition new_object :: "Position \<Rightarrow> Robot \<Rightarrow> address \<times> Robot" where
  \<comment> \<open>an object literal: a fresh object in the store\<close>
  "new_object v s = (length (objects s), s\<lparr>objects := objects s @ [v]\<rparr>)"

definition coordinates :: "Position \<Rightarrow> string" where
  \<comment> \<open>\<^verbatim>\<open>`${fmt(x)}, ${fmt(y)}, ${fmt(z)}, ${fmt(p)}, ${fmt(r)}`\<close>\<close>
  "coordinates v =
     fmt (pos_x v) @ '', '' @ fmt (pos_y v) @ '', '' @ fmt (pos_z v) @ '', ''
     @ fmt (pos_p v) @ '', '' @ fmt (pos_r v)"

definition cache_position :: "Position \<Rightarrow> Robot \<Rightarrow> unit promise \<times> Robot" where
  \<comment> \<open>\<^verbatim>\<open>this.position = { x, y, z, p, r }\<close>, the last statement of \<^verbatim>\<open>moveTo\<close>\<close>
  "cache_position v s =
     (case new_object v s of (a, s1) \<Rightarrow> (Fulfilled (), s1\<lparr>position := Some a\<rparr>))"

definition moveTo :: "Position \<Rightarrow> number \<Rightarrow> Robot \<Rightarrow> unit promise \<times> Robot" where
  "moveTo v interpolatePoints s =
     (if \<not> checkPortOpen s then (Rejected PortNotOpen, s)
      else if interpolatePoints = Fin 0
      then await (sendCommandNoAnswer (''MP '' @ coordinates v) s) (\<lambda>_. cache_position v)
      else
        await (sendCommandNoAnswer ''PC 1'' s) (\<lambda>_ s1.
        await (sendCommandNoAnswer (''PD 1, '' @ coordinates v) s1) (\<lambda>_ s2.
        await (sendCommandNoAnswer
                 (''MS 1, '' @ ToString interpolatePoints @ '', ''
                  @ (if toolIsOpen s2 then ''C'' else ''O'')) s2)
          (\<lambda>_. cache_position v))))"

definition clean_part :: "string \<Rightarrow> number" where
  \<comment> \<open>the function mapped over the fields of the \<^verbatim>\<open>WH\<close> response\<close>
  "clean_part part =
     (let cleaned = replace_plus (trim part)
      in parseFloat (if startsWith cleaned ''.'' then ''0'' @ cleaned else cleaned))"

definition getActualPosition :: "bool \<Rightarrow> event list \<Rightarrow> Robot \<Rightarrow> address promise \<times> Robot" where
  "getActualPosition forceUpdateByHardware evs s =
     (case (if forceUpdateByHardware then None else position s) of
        Some a \<Rightarrow>
          (case new_object (objects s ! a) s of (c, s1) \<Rightarrow> (Fulfilled c, s1))
      | None \<Rightarrow>
          (case sendCommandWithAnswer ''WH'' s of
             (h, s1) \<Rightarrow>
               await (wait_for h evs s1) (\<lambda>response s2.
                 (let parts = map clean_part (split_comma response)
                  in if length parts < 5 then (Rejected MalformedResponse, s2)
                     else
                       (case new_object
                               \<lparr>pos_x = parts ! 0, pos_y = parts ! 1, pos_z = parts ! 2,
                                pos_p = parts ! 3, pos_r = parts ! 4\<rparr> s2 of
                          (a, s3) \<Rightarrow>
                            (case new_object (objects s3 ! a) (s3\<lparr>position := Some a\<rparr>) of
                               (c, s4) \<Rightarrow> (Fulfilled c, s4)))))))"

definition setSpeed :: "number \<Rightarrow> Robot \<Rightarrow> unit promise \<times> Robot" where
  "setSpeed sp s =
     (if \<not> checkPortOpen s then (Rejected PortNotOpen, s)
      else
        (let roundedSpeed = Math_floor sp
         in if lt roundedSpeed (Fin 0) \<or> gt roundedSpeed (Fin 9)
            then (Rejected ValidationError, s)
            else sendCommandNoAnswer (''SP '' @ ToString roundedSpeed)
                   (s\<lparr>speed := roundedSpeed\<rparr>)))"

definition setToolLength :: "number \<Rightarrow> Robot \<Rightarrow> unit promise \<times> Robot" where
  "setToolLength len s =
     (if \<not> checkPortOpen s then (Rejected PortNotOpen, s)
      else sendCommandNoAnswer (''TL '' @ ToString (Math_floor len)) (s\<lparr>toolLength := len\<rparr>))"

definition withCheck :: "'a promise \<times> Robot \<Rightarrow> event list \<Rightarrow> 'a promise \<times> Robot" where
  \<comment> \<open>The argument is the promise of the operation, with the robot as the operation
      has left it.\<close>
  "withCheck result evs =
     await result (\<lambda>cbResult s1.
       await (checkRobotErrorCode evs s1) (\<lambda>errResult s2.
         (case errResult of
            ok_true \<Rightarrow> (Fulfilled cbResult, s2)
          | ok_false err \<Rightarrow> (Rejected (CommandError err), s2))))"

definition positionOffset :: nat where
  "positionOffset = 1"

fun store_points :: "nat \<Rightarrow> Position list \<Rightarrow> Robot \<Rightarrow> unit promise \<times> Robot" where
  \<comment> \<open>the loop of \<^verbatim>\<open>movePath\<close>, from index \<open>i\<close>, over the points not yet stored\<close>
  "store_points i [] s = (Fulfilled (), s)"
| "store_points i (point # rest) s =
     (case sendCommandNoAnswer
             (''PD '' @ ToString (Fin (real (i + positionOffset))) @ '', '' @ coordinates point) s of
        (Fulfilled _, s1) \<Rightarrow> store_points (Suc i) rest (delay 100 s1)
      | (Rejected e, s1) \<Rightarrow> (Rejected e, s1)
      | (Pending, s1) \<Rightarrow> (Pending, s1))"

definition movePath :: "Position list \<Rightarrow> Robot \<Rightarrow> unit promise \<times> Robot" where
  "movePath points s =
     (if \<not> checkPortOpen s then (Rejected PortNotOpen, s)
      else
        await (store_points 0 points s) (\<lambda>_.
          sendCommandNoAnswer
            (''MC '' @ ToString (Fin (real positionOffset)) @ '', ''
             @ ToString (Fin (real (length points) - 1 + real positionOffset)))))"

definition nullish :: "'a option \<Rightarrow> 'a \<Rightarrow> 'a" where
  \<comment> \<open>the operator \<^verbatim>\<open>??\<close>; \<open>None\<close> is \<^verbatim>\<open>undefined\<close>\<close>
  "nullish v d = (case v of None \<Rightarrow> d | Some w \<Rightarrow> w)"

definition moveDelta :: "number \<Rightarrow> number \<Rightarrow> number \<Rightarrow> number option \<Rightarrow> number option
    \<Rightarrow> number option \<Rightarrow> Robot \<Rightarrow> unit promise \<times> Robot" where
  "moveDelta dx dy dz pOrInterpolatePoints r0 interpolatePoints s =
     (case position s of
        None \<Rightarrow> (Rejected NoCachedPose, s)
      | Some a \<Rightarrow>
          (let cur = objects s ! a;
               three = (r0 = None \<and> interpolatePoints = None);
               dp = (if three then pos_p cur else nullish pOrInterpolatePoints (pos_p cur));
               dr = (if three then pos_r cur else nullish r0 (pos_r cur));
               actualInterpolatePoints =
                 (if three then nullish pOrInterpolatePoints (Fin 0)
                  else nullish interpolatePoints (Fin 0))
           in moveTo \<lparr>pos_x = add (pos_x cur) dx, pos_y = add (pos_y cur) dy,
                      pos_z = add (pos_z cur) dz, pos_p = add (pos_p cur) dp,
                      pos_r = add (pos_r cur) dr\<rparr>
                actualInterpolatePoints s))"

definition getPosition :: "Robot \<Rightarrow> address option" where
  \<comment> \<open>\<^verbatim>\<open>return this.position\<close>: the reference held by the robot, or null\<close>
  "getPosition s = position s"

definition getToolLength :: "Robot \<Rightarrow> number" where
  "getToolLength s = toolLength s"

definition getSpeed :: "Robot \<Rightarrow> number" where
  "getSpeed s = speed s"

definition assign_x :: "address \<Rightarrow> number \<Rightarrow> Robot \<Rightarrow> Robot" where
  \<comment> \<open>a caller's assignment \<^verbatim>\<open>ref.x = v\<close> through a reference it holds\<close>
  "assign_x a v s =
     (if a < length (objects s) then s\<lparr>objects := (objects s)[a := (objects s ! a)\<lparr>pos_x := v\<rparr>]\<rparr>
      else s)"

definition cached_pose :: "Robot \<Rightarrow> Position option" where
  \<comment> \<open>the object that \<open>position\<close> refers to\<close>
  "cached_pose s = map_option (\<lambda>a. objects s ! a) (position s)"

subsection \<open>The listener over a sequence of chunks\<close>

fun deliver_chunks :: "string list \<Rightarrow> listener \<Rightarrow> listener" where
  \<comment> \<open>the port calls the listener once for each chunk, in the order of arrival\<close>
  "deliver_chunks [] l = l"
| "deliver_chunks (c # cs) l = deliver_chunks cs (on_data c l)"

fun count_crlf :: "string \<Rightarrow> nat" where
  \<comment> \<open>the number of occurrences of CR LF in a text\<close>
  "count_crlf (a # b # cs) =
     (if a = CR \<and> b = LF then Suc (count_crlf cs) else count_crlf (b # cs))"
| "count_crlf _ = 0"

section \<open>Concrete robots and inputs\<close>

definition new_robot :: Robot where
  \<comment> \<open>a robot as constructed: no port yet\<close>
  "new_robot =
     \<lparr>port = None, position = None, toolIsOpen = False, toolLength = Fin (- 1),
      speed = Fin (- 1), portIsOpen = False, objects = [], effects = []\<rparr>"

definition connected_robot :: Robot where
  \<comment> \<open>a robot as constructed, after \<^verbatim>\<open>connect\<close> has opened the port\<close>
  "connected_robot =
     \<lparr>port = Some \<lparr>isOpen = True, listeners = []\<rparr>, position = None, toolIsOpen = False,
      toolLength = Fin (- 1), speed = Fin (- 1), portIsOpen = False, objects = [], effects = []\<rparr>"

definition path_ABC :: "Position list" where
  "path_ABC =
     [\<lparr>pos_x = Fin 100, pos_y = Fin 0, pos_z = Fin 200, pos_p = Fin 0, pos_r = Fin 0\<rparr>,
      \<lparr>pos_x = Fin 150, pos_y = Fin 50, pos_z = Fin 200, pos_p = Fin 0, pos_r = Fin 0\<rparr>,
      \<lparr>pos_x = Fin 100.5, pos_y = Fin (- 50), pos_z = Fin 150, pos_p = Fin (- 90), pos_r = Fin 0\<rparr>]"

definition answered :: "string \<Rightarrow> string \<Rightarrow> Robot" where
  "answered command response = connected_robot\<lparr>port := Some \<lparr>isOpen = True, listeners =
          [\<lparr>stringBuffer = [], responses = [response], answer = Fulfilled response\<rparr>]\<rparr>,
        effects := [Write (command @ CRLF)]\<rparr>"

definition WH_response :: string where
  "WH_response = ''+012.300, .500,-001.000,+000.000,+090.000''"

definition WH_pose :: Position where
  "WH_pose = \<lparr>pos_x = Fin 12.3, pos_y = Fin 0.5, pos_z = Fin (- 1), pos_p = Fin 0, pos_r = Fin 90\<rparr>"

definition NaN_pose :: Position where
  "NaN_pose = \<lparr>pos_x = NaN, pos_y = NaN, pos_z = NaN, pos_p = NaN, pos_r = NaN\<rparr>"

definition known_pose :: Position where
  "known_pose = \<lparr>pos_x = Fin 10, pos_y = Fin 0, pos_z = Fin 0, pos_p = Fin 5, pos_r = Fin 5\<rparr>"

definition robot_at_known_pose :: Robot where
  \<comment> \<open>a connected robot whose cached position is an object holding \<open>known_pose\<close>\<close>
  "robot_at_known_pose = connected_robot\<lparr>position := Some 0, objects := [known_pose]\<rparr>"

definition two_requests :: Robot where
  \<comment> \<open>\<^verbatim>\<open>sendCommandWithAnswer("WH")\<close> and then, with no event in between,
      \<^verbatim>\<open>sendCommandWithAnswer("ER")\<close>\<close>
  "two_requests =
     snd (sendCommandWithAnswer ''ER'' (snd (sendCommandWithAnswer ''WH'' connected_robot)))"

section \<open>Properties\<close>

subsection \<open>Fire-and-forget commands\<close>

lemma checkPortOpen_effects [simp]: "checkPortOpen (s\<lparr>effects := es\<rparr>) = checkPortOpen s"
  by (simp add: checkPortOpen_def)

lemma checkPortOpen_connected: "checkPortOpen connected_robot"
  by (simp add: checkPortOpen_def connected_robot_def)

lemma sendCommandNoAnswer_open:
  "checkPortOpen s \<Longrightarrow> sendCommandNoAnswer command s =
     (Fulfilled (), s\<lparr>effects := effects s @ [Write (command @ CRLF), Delay 100]\<rparr>)"
  by (simp add: sendCommandNoAnswer_def delay_def port_write_def)

subsection \<open>Tool length\<close>

text \<open>
  C10. On an open port, \<^verbatim>\<open>setToolLength(L)\<close> writes \<^verbatim>\<open>TL\<close> followed by \<open>floor(L)\<close> and
  stores \<open>L\<close> itself, so that \<^verbatim>\<open>getToolLength()\<close> returns \<open>L\<close>; for a fractional \<open>L\<close> the
  value sent differs from the value cached.
\<close>

theorem setToolLength_caches_untruncated:
  assumes "checkPortOpen s"
  shows "setToolLength len s =
           (Fulfilled (),
            s\<lparr>toolLength := len,
              effects := effects s @ [Write (''TL '' @ ToString (Math_floor len) @ CRLF), Delay 100]\<rparr>)
         \<and> getToolLength (snd (setToolLength len s)) = len
         \<and> (\<forall>v. len = Fin v \<and> v \<notin> \<int> \<longrightarrow> Math_floor len \<noteq> getToolLength (snd (setToolLength len s)))"
proof -
  have still_open: "checkPortOpen (s\<lparr>toolLength := len\<rparr>)"
    using assms by (simp add: checkPortOpen_def)
  have run: "setToolLength len s =
           (Fulfilled (),
            s\<lparr>toolLength := len,
              effects := effects s @ [Write (''TL '' @ ToString (Math_floor len) @ CRLF), Delay 100]\<rparr>)"
    using assms by (simp add: setToolLength_def sendCommandNoAnswer_open [OF still_open])
  have frac: "of_int \<lfloor>v\<rfloor> \<noteq> v" if "v \<notin> \<int>" for v :: real
    using that by (metis Ints_of_int)
  show ?thesis
    unfolding run using frac by (auto simp: getToolLength_def)
qed

theorem setToolLength_caches_untruncated_witness:
  "checkPortOpen connected_robot
   \<and> effects (snd (setToolLength (Fin 50.7) connected_robot)) = [Write (''TL 50'' @ CRLF), Delay 100]
   \<and> getToolLength (snd (setToolLength (Fin 50.7) connected_robot)) = Fin 50.7
   \<and> Math_floor (Fin 50.7) = Fin 50"
  using setToolLength_caches_untruncated [OF checkPortOpen_connected, of "Fin 50.7"]
    checkPortOpen_connected
  by (simp add: connected_robot_def decimal.simps digit_def getToolLength_def)

subsection \<open>Path moves\<close>

text \<open>
  C9. On an open port, \<^verbatim>\<open>movePath\<close> of the empty sequence writes no \<^verbatim>\<open>PD\<close> command and
  exactly one command, \<^verbatim>\<open>MC 1, 0\<close>, and succeeds.
\<close>

theorem movePath_empty_executes_inverted_range:
  assumes "checkPortOpen s"
  shows "movePath [] s =
           (Fulfilled (), s\<lparr>effects := effects s @ [Write (''MC 1, 0'' @ CRLF), Delay 100]\<rparr>)"
  using assms
  by (simp add: movePath_def await_def sendCommandNoAnswer_open positionOffset_def
      decimal.simps digit_def)

theorem movePath_empty_executes_inverted_range_witness:
  "checkPortOpen connected_robot
   \<and> movePath [] connected_robot =
       (Fulfilled (), connected_robot\<lparr>effects := [Write (''MC 1, 0'' @ CRLF), Delay 100]\<rparr>)"
  using movePath_empty_executes_inverted_range [OF checkPortOpen_connected]
    checkPortOpen_connected
  by (simp add: connected_robot_def)

lemma store_points_open:
  "checkPortOpen s \<Longrightarrow> store_points i pts s =
     (Fulfilled (),
      s\<lparr>effects := effects s @ concat (map (\<lambda>(j, pt).
          [Write (''PD '' @ ToString (Fin (real (j + 1))) @ '', '' @ coordinates pt @ CRLF),
           Delay 100, Delay 100]) (enumerate i pts))\<rparr>)"
proof (induction pts arbitrary: i s)
  case Nil
  then show ?case by simp
next
  case (Cons pt pts)
  let ?s1 = "s\<lparr>effects := effects s @
      [Write ((''PD '' @ ToString (Fin (real (i + positionOffset))) @ '', '' @ coordinates pt) @ CRLF),
       Delay 100, Delay 100]\<rparr>"
  have "checkPortOpen ?s1"
    using Cons.prems by simp
  from Cons.IH [OF this, of "Suc i"] Cons.prems show ?case
    by (simp add: sendCommandNoAnswer_open delay_def positionOffset_def)
qed

text \<open>
  C6. On an open port, \<^verbatim>\<open>movePath\<close> of a non-empty sequence of \<open>N\<close> poses writes, for the
  pose at index \<open>i\<close> and in this order, one \<^verbatim>\<open>PD\<close> command for slot \<open>i + 1\<close>, each followed
  by the settle delay (that of the send and that of the loop), and then exactly one
  \<^verbatim>\<open>MC 1, N\<close>.
\<close>

theorem movePath_stores_then_executes:
  assumes "checkPortOpen s" and "points \<noteq> []"
  shows "movePath points s =
     (Fulfilled (),
      s\<lparr>effects := effects s
          @ concat (map (\<lambda>(i, point).
              [Write (''PD '' @ ToString (Fin (real (i + 1))) @ '', '' @ coordinates point @ CRLF),
               Delay 100, Delay 100]) (enumerate 0 points))
          @ [Write (''MC 1, '' @ ToString (Fin (real (length points))) @ CRLF), Delay 100]\<rparr>)"
  using assms
  by (simp add: movePath_def await_def store_points_open sendCommandNoAnswer_open positionOffset_def
      decimal.simps digit_def)

theorem movePath_stores_then_executes_witness:
  "checkPortOpen connected_robot \<and> path_ABC \<noteq> []
   \<and> movePath path_ABC connected_robot =
     (Fulfilled (),
      connected_robot\<lparr>effects :=
        [Write (''PD 1, 100.0, 0.0, 200.0, 0.0, 0.0'' @ CRLF), Delay 100, Delay 100,
         Write (''PD 2, 150.0, 50.0, 200.0, 0.0, 0.0'' @ CRLF), Delay 100, Delay 100,
         Write (''PD 3, 100.5, -50.0, 150.0, -90.0, 0.0'' @ CRLF), Delay 100, Delay 100,
         Write (''MC 1, 3'' @ CRLF), Delay 100]\<rparr>)"
proof -
  have ne: "path_ABC \<noteq> []"
    by (simp add: path_ABC_def)
  show ?thesis
    using movePath_stores_then_executes [OF checkPortOpen_connected ne] checkPortOpen_connected ne
    by (simp add: connected_robot_def path_ABC_def enumerate_eq_zip coordinates_def fmt_def
        decimal.simps digit_def upt_rec)
qed

subsection \<open>Speed\<close>

text \<open>
  C5, as stated, fails: 9.5 lies outside [0, 9], and \<^verbatim>\<open>setSpeed(9.5)\<close> on an open port
  succeeds, caches 9 and sends \<^verbatim>\<open>SP 9\<close>, because the range check is applied to the
  floor of the input.
\<close>

theorem setSpeed_accepts_above_nine:
  "gt (Fin 9.5) (Fin 9)
   \<and> setSpeed (Fin 9.5) connected_robot =
       (Fulfilled (), connected_robot\<lparr>speed := Fin 9, effects := [Write (''SP 9'' @ CRLF), Delay 100]\<rparr>)"
  by (simp add: setSpeed_def gt_def checkPortOpen_def connected_robot_def sendCommandNoAnswer_def
      delay_def port_write_def decimal.simps digit_def)

text \<open>
  C5, amended. On an open port and for a finite \<open>s\<close>, \<^verbatim>\<open>setSpeed(s)\<close> fails with
  ValidationError exactly when \<open>floor(s)\<close> is outside [0, 9], that is when \<open>s < 0\<close> or
  \<open>10 \<le> s\<close>, and then nothing is written and the robot is unchanged; otherwise it
  succeeds, caches \<open>floor(s)\<close>, which is \<open>s\<close> truncated toward zero, and sends \<^verbatim>\<open>SP\<close> with
  that value. Both infinities are rejected.
\<close>

theorem setSpeed_validates_floor:
  assumes "checkPortOpen s"
  shows "setSpeed (Fin v) s =
     (if v < 0 \<or> 10 \<le> v then (Rejected ValidationError, s)
      else (Fulfilled (),
            s\<lparr>speed := Fin (of_int \<lfloor>v\<rfloor>),
              effects := effects s @ [Write (''SP '' @ ToString (Fin (of_int \<lfloor>v\<rfloor>)) @ CRLF), Delay 100]\<rparr>))
     \<and> (0 \<le> v \<and> v < 10 \<longrightarrow> getSpeed (snd (setSpeed (Fin v) s)) = Fin (sgn v * of_int \<lfloor>\<bar>v\<bar>\<rfloor>))
     \<and> setSpeed PosInfinity s = (Rejected ValidationError, s)
     \<and> setSpeed NegInfinity s = (Rejected ValidationError, s)"
proof -
  have still_open: "checkPortOpen (s\<lparr>speed := n\<rparr>)" for n
    using assms by (simp add: checkPortOpen_def)
  have lo: "(of_int \<lfloor>v\<rfloor> < (0::real)) = (v < 0)"
    by (simp add: floor_less_iff)
  have hi: "((9::real) < of_int \<lfloor>v\<rfloor>) = (10 \<le> v)"
    by (simp add: less_floor_iff)
  have fin: "setSpeed (Fin v) s =
     (if v < 0 \<or> 10 \<le> v then (Rejected ValidationError, s)
      else (Fulfilled (),
            s\<lparr>speed := Fin (of_int \<lfloor>v\<rfloor>),
              effects := effects s @ [Write (''SP '' @ ToString (Fin (of_int \<lfloor>v\<rfloor>)) @ CRLF), Delay 100]\<rparr>))"
    using assms
    by (simp add: setSpeed_def Let_def gt_def lo hi sendCommandNoAnswer_open [OF still_open]
        del: ToString.simps)
  have tr: "of_int \<lfloor>v\<rfloor> = sgn v * of_int \<lfloor>\<bar>v\<bar>\<rfloor>" if "0 \<le> v"
    using that by (cases "v = 0") (simp_all add: sgn_if)
  have trunc: "0 \<le> v \<and> v < 10 \<longrightarrow> getSpeed (snd (setSpeed (Fin v) s)) = Fin (sgn v * of_int \<lfloor>\<bar>v\<bar>\<rfloor>)"
    unfolding fin using tr by (auto simp: getSpeed_def)
  have inf: "setSpeed PosInfinity s = (Rejected ValidationError, s)"
    "setSpeed NegInfinity s = (Rejected ValidationError, s)"
    using assms by (simp_all add: setSpeed_def gt_def)
  show ?thesis
    using fin trunc inf by blast
qed

theorem setSpeed_validates_floor_witness:
  "checkPortOpen connected_robot
   \<and> setSpeed (Fin 5.9) connected_robot =
       (Fulfilled (), connected_robot\<lparr>speed := Fin 5, effects := [Write (''SP 5'' @ CRLF), Delay 100]\<rparr>)
   \<and> setSpeed (Fin 10) connected_robot = (Rejected ValidationError, connected_robot)"
  using setSpeed_validates_floor [OF checkPortOpen_connected, of "5.9"]
    setSpeed_validates_floor [OF checkPortOpen_connected, of "10"]
    checkPortOpen_connected
  by (simp add: connected_robot_def decimal.simps digit_def)

subsection \<open>The response framer\<close>

lemma CR_neq_LF: "CR \<noteq> LF"
  by (simp add: CR_def LF_def)

lemma count_crlf_skip: "b \<noteq> CR \<Longrightarrow> count_crlf (b # cs) = count_crlf cs"
  by (cases cs) simp_all

lemma count_crlf_Cons: "count_crlf q \<le> count_crlf (a # q)"
proof (cases q)
  case Nil
  then show ?thesis by simp
next
  case (Cons b cs)
  show ?thesis
  proof (cases "a = CR \<and> b = LF")
    case True
    then have "count_crlf (b # cs) = count_crlf cs"
      using CR_neq_LF by (simp add: count_crlf_skip)
    with True Cons show ?thesis by simp
  next
    case False
    with Cons show ?thesis by auto
  qed
qed

lemma count_crlf_append: "count_crlf p + count_crlf q \<le> count_crlf (p @ q)"
  by (induction p rule: count_crlf.induct) (auto simp: count_crlf_Cons)

lemma endsWith_split: "endsWith s t \<Longrightarrow> \<exists>r. s = r @ t"
  unfolding endsWith_def by (metis append_take_drop_id)

lemma endsWith_append_same [simp]: "endsWith (r @ t) t"
  by (simp add: endsWith_def)

lemma count_crlf_CRLF: "count_crlf CRLF = 1"
  by (simp add: CRLF_def)

lemma endsWith_count: "endsWith p CRLF \<Longrightarrow> 1 \<le> count_crlf p"
proof -
  assume "endsWith p CRLF"
  then obtain r where "p = r @ CRLF"
    using endsWith_split by blast
  then show ?thesis
    using count_crlf_append [of r CRLF] by (simp add: count_crlf_CRLF)
qed

lemma endsWith_append_long:
  "length t \<le> length q \<Longrightarrow> endsWith (p @ q) t = endsWith q t"
  by (simp add: endsWith_def)

lemma terminator_is_last:
  assumes "endsWith p CRLF" and "endsWith (p @ q) CRLF" and "count_crlf (p @ q) = 1"
  shows "q = []"
proof (rule ccontr)
  assume ne: "q \<noteq> []"
  show False
  proof (cases "2 \<le> length q")
    case True
    then have "endsWith q CRLF"
      using assms(2) endsWith_append_long [of CRLF q p] by (simp add: CRLF_def)
    then have "2 \<le> count_crlf p + count_crlf q"
      using endsWith_count [OF assms(1)] endsWith_count [of q] by simp
    then show False
      using count_crlf_append [of p q] assms(3) by simp
  next
    case False
    with ne have "length q = 1"
      by (cases q) (auto simp: Suc_le_eq)
    then obtain c where q: "q = [c]"
      by (auto simp: length_Suc_conv)
    obtain r where p: "p = r @ CRLF"
      using assms(1) endsWith_split by blast
    have "endsWith (r @ [CR, LF, c]) [CR, LF]"
      using assms(2) by (simp add: p q CRLF_def)
    then have "[LF, c] = [CR, LF]"
      by (simp add: endsWith_def)
    then show False
      using CR_neq_LF by simp
  qed
qed

lemma deliver_chunks_idle:
  "stringBuffer l = [] \<Longrightarrow> concat cs = [] \<Longrightarrow> deliver_chunks cs l = l"
proof (induction cs)
  case Nil
  then show ?case by simp
next
  case (Cons c cs)
  then have "on_data c l = l"
    by (simp add: on_data_def endsWith_def CRLF_def)
  with Cons show ?case by simp
qed

lemma deliver_chunks_one_line:
  assumes "\<not> endsWith b CRLF" and "endsWith (b @ concat cs) CRLF"
    and "count_crlf (b @ concat cs) = 1"
  shows "deliver_chunks cs \<lparr>stringBuffer = b, responses = rs, answer = a\<rparr> =
           \<lparr>stringBuffer = [], responses = rs @ [trim (b @ concat cs)],
            answer = resolve (trim (b @ concat cs)) a\<rparr>"
  using assms
proof (induction cs arbitrary: b)
  case Nil
  then show ?case by simp
next
  case (Cons c cs)
  show ?case
  proof (cases "endsWith (b @ c) CRLF")
    case True
    have rest: "concat cs = []"
      using terminator_is_last [of "b @ c" "concat cs"] True Cons.prems by simp
    have "deliver_chunks cs \<lparr>stringBuffer = [], responses = rs @ [trim (b @ c)],
            answer = resolve (trim (b @ c)) a\<rparr> =
          \<lparr>stringBuffer = [], responses = rs @ [trim (b @ c)], answer = resolve (trim (b @ c)) a\<rparr>"
      by (rule deliver_chunks_idle [OF _ rest]) simp
    then show ?thesis
      using True by (simp add: on_data_def Let_def rest)
  next
    case False
    then show ?thesis
      using Cons.IH [of "b @ c"] Cons.prems by (simp add: on_data_def)
  qed
qed

lemma isWhiteSpace_CR_LF: "isWhiteSpace CR" "isWhiteSpace LF"
  by (simp_all add: isWhiteSpace_def CR_def LF_def)

lemma trimEnd_CRLF: "trimEnd (s @ CRLF) = trimEnd s"
  by (simp add: trimEnd_def CRLF_def isWhiteSpace_CR_LF)

lemma trim_CRLF: "trim (line @ CRLF) = trim line"
proof (cases "\<forall>c \<in> set line. isWhiteSpace c")
  case True
  then have "trimStart line = []" and "trimStart (line @ CRLF) = []"
    by (simp_all add: trimStart_def dropWhile_eq_Nil_conv CRLF_def isWhiteSpace_CR_LF)
  then show ?thesis
    by (simp only: trim_def)
next
  case False
  then have "trimStart (line @ CRLF) = trimStart line @ CRLF"
    by (auto simp: trimStart_def dropWhile_append1)
  then show ?thesis
    by (simp add: trim_def trimEnd_CRLF)
qed

lemma not_endsWith_Nil: "\<not> endsWith [] CRLF"
  by (simp add: endsWith_def CRLF_def)

text \<open>
  C3, amended. For every sequence of chunks whose concatenation is one line followed by
  CR LF, with no other CR LF in it, exactly one response is delivered to the waiting
  consumer, and it is that line trimmed, however the text is split into chunks.
\<close>

theorem framer_delivers_single_line:
  assumes "concat chunks = line @ CRLF" and "count_crlf (line @ CRLF) = 1"
  shows "deliver_chunks chunks new_listener =
           \<lparr>stringBuffer = [], responses = [trim line], answer = Fulfilled (trim line)\<rparr>"
  using deliver_chunks_one_line [of "[]" chunks "[]" Pending] assms
  by (simp add: new_listener_def not_endsWith_Nil trim_CRLF)

theorem framer_delivers_single_line_witness:
  "concat [''+0'', ''12.3'' @ [CR], [LF]] = ''+012.3'' @ CRLF
   \<and> count_crlf (''+012.3'' @ CRLF) = 1
   \<and> deliver_chunks [''+0'', ''12.3'' @ [CR], [LF]] new_listener =
        \<lparr>stringBuffer = [], responses = [''+012.3''], answer = Fulfilled ''+012.3''\<rparr>"
proof -
  have c: "concat [''+0'', ''12.3'' @ [CR], [LF]] = ''+012.3'' @ CRLF"
    by (simp add: CRLF_def)
  have n: "count_crlf (''+012.3'' @ CRLF) = 1"
    by (simp add: CRLF_def CR_def LF_def)
  have t: "trim ''+012.3'' = ''+012.3''"
    by (simp add: trim_def trimStart_def trimEnd_def isWhiteSpace_def)
  show ?thesis
    using framer_delivers_single_line [OF c n] c n by (simp add: t)
qed

text \<open>
  C3, as stated, fails: the text \<^verbatim>\<open>OK\<close> CR LF \<^verbatim>\<open>X\<close> contains exactly one terminated line.
  Arriving as one chunk it delivers nothing, since the buffer does not end with the
  terminator; split after the terminator it delivers \<^verbatim>\<open>OK\<close>.
\<close>

theorem framer_misses_line_followed_by_bytes:
  "count_crlf (concat [''OK'' @ CRLF @ ''X'']) = 1
   \<and> deliver_chunks [''OK'' @ CRLF @ ''X''] new_listener =
        \<lparr>stringBuffer = ''OK'' @ CRLF @ ''X'', responses = [], answer = Pending\<rparr>
   \<and> deliver_chunks [''OK'' @ CRLF, ''X''] new_listener =
        \<lparr>stringBuffer = ''X'', responses = [''OK''], answer = Fulfilled ''OK''\<rparr>"
  by (simp add: new_listener_def on_data_def endsWith_def CRLF_def CR_def LF_def
      trim_def trimStart_def trimEnd_def isWhiteSpace_def)

subsection \<open>Requests with an answer\<close>

lemmas str_defs = trim_def trimStart_def trimEnd_def isWhiteSpace_def CRLF_def CR_def LF_def
  startsWith_def endsWith_def replace_plus_def

lemmas parse_defs = parseFloat_def parseInt10_def isDigit_def digits_value_def digit_value_def
  scale10_def exponent_part_def signed_integer_def clean_part_def

lemmas channel_defs = sendCommandWithAnswer_def port_write_def new_listener_def state_of_def
  occur_def on_data_def connected_robot_def

lemma wait_for_frame:
  "effects (snd (wait_for h evs s)) = effects s
   \<and> objects (snd (wait_for h evs s)) = objects s
   \<and> position (snd (wait_for h evs s)) = position s"
proof (induction evs arbitrary: s)
  case Nil
  then show ?case by simp
next
  case (Cons e evs)
  show ?case
    using Cons.IH [of "occur e s"]
    by (cases "state_of h s") (simp_all add: occur_def)
qed

lemma sendCommandWithAnswer_open:
  assumes "checkPortOpen s"
  shows "effects (snd (sendCommandWithAnswer command s)) = effects s @ [Write (command @ CRLF)]"
    and "objects (snd (sendCommandWithAnswer command s)) = objects s"
  using assms
  by (auto simp: sendCommandWithAnswer_def checkPortOpen_def port_write_def split: option.splits)

subsection \<open>Error codes\<close>

lemma isDigit_digit: "isDigit (digit d)"
  unfolding isDigit_def digit_def by (rule nth_mem) simp

lemma digit_value_digit: "digit_value (digit d) = d mod 10"
proof -
  have small: "k = 0 \<or> k = 1 \<or> k = 2 \<or> k = 3 \<or> k = 4 \<or> k = 5 \<or> k = 6 \<or> k = 7 \<or> k = 8 \<or> k = 9"
    if "k < 10" for k :: nat
    using that by arith
  have "of_char (''0123456789'' ! k) - 48 = k" if "k < 10" for k :: nat
    using small [OF that] by (elim disjE) simp_all
  then show ?thesis
    by (simp add: digit_value_def digit_def)
qed

lemma decimal_not_Nil: "decimal n \<noteq> []"
  by (subst decimal.simps) simp

lemma isDigit_decimal: "c \<in> set (decimal n) \<Longrightarrow> isDigit c"
proof (induction n arbitrary: c rule: decimal.induct)
  case (1 n)
  from "1.prems" show ?case
    by (subst (asm) decimal.simps) (auto simp: isDigit_digit dest: "1.IH" split: if_splits)
qed

lemma digits_value_snoc: "digits_value (ds @ [c]) = 10 * digits_value ds + digit_value c"
  by (simp add: digits_value_def)

lemma digits_value_decimal: "digits_value (decimal n) = n"
proof (induction n rule: decimal.induct)
  case (1 n)
  show ?case
  proof (cases "n < 10")
    case True
    then show ?thesis
      by (subst decimal.simps) (simp add: digits_value_def digit_value_digit)
  next
    case False
    then have "digits_value (decimal n) = 10 * digits_value (decimal (n div 10)) + n mod 10"
      by (subst decimal.simps) (simp add: digits_value_snoc digit_value_digit)
    with False "1.IH" show ?thesis
      by simp
  qed
qed

lemma isDigit_plain: "isDigit c \<Longrightarrow> \<not> isWhiteSpace c \<and> c \<noteq> CHR ''-'' \<and> c \<noteq> CHR ''+''"
  by (auto simp: isDigit_def isWhiteSpace_def)

lemma startsWith_one: "startsWith s [c] = (s \<noteq> [] \<and> hd s = c)"
  by (cases s) (auto simp: startsWith_def)

lemma parseInt10_decimal: "parseInt10 (decimal n) = Fin (real n)"
proof -
  have hd: "isDigit (hd (decimal n))"
    using decimal_not_Nil [of n] isDigit_decimal [of "hd (decimal n)" n] by simp
  then have t: "trimStart (decimal n) = decimal n"
    using isDigit_plain by (simp add: trimStart_def dropWhile_eq_self_iff)
  have s: "\<not> startsWith (decimal n) ''-''" "\<not> startsWith (decimal n) ''+''"
    using hd isDigit_plain by (auto simp: startsWith_one)
  have z: "takeWhile isDigit (decimal n) = decimal n"
    by (simp add: takeWhile_eq_all_conv isDigit_decimal)
  show ?thesis
    by (simp add: parseInt10_def t s z decimal_not_Nil digits_value_decimal)
qed

lemma parseInt10_unparseable:
  assumes "\<forall>c cs. res = c # cs \<longrightarrow> \<not> isDigit c \<and> \<not> isWhiteSpace c \<and> c \<noteq> CHR ''+'' \<and> c \<noteq> CHR ''-''"
  shows "parseInt10 res = NaN"
proof (cases res)
  case Nil
  then show ?thesis
    by (simp add: parseInt10_def trimStart_def startsWith_def)
next
  case (Cons c cs)
  with assms have c: "\<not> isDigit c" "\<not> isWhiteSpace c" "c \<noteq> CHR ''+''" "c \<noteq> CHR ''-''"
    by auto
  with Cons show ?thesis
    by (simp add: parseInt10_def trimStart_def startsWith_one)
qed

lemma withCheck_fulfilled:
  "withCheck (Fulfilled v, s) evs =
     await (checkRobotErrorCode evs s) (\<lambda>errResult s2.
       (case errResult of
          ok_true \<Rightarrow> (Fulfilled v, s2)
        | ok_false err \<Rightarrow> (Rejected (CommandError err), s2)))"
  by (simp add: withCheck_def await_def)

lemma checkRobotErrorCode_state:
  "checkPortOpen s \<Longrightarrow>
   snd (checkRobotErrorCode evs s) =
     snd (wait_for (fst (sendCommandWithAnswer ''ER'' s)) evs (snd (sendCommandWithAnswer ''ER'' s)))"
  by (cases "fst (wait_for (fst (sendCommandWithAnswer ''ER'' s)) evs
                (snd (sendCommandWithAnswer ''ER'' s)))")
     (simp_all add: checkRobotErrorCode_def await_def Let_def split_beta)

lemma withCheck_state:
  "snd (withCheck (Fulfilled v, s) evs) = snd (checkRobotErrorCode evs s)"
  by (cases "fst (checkRobotErrorCode evs s)")
     (auto simp: withCheck_fulfilled await_def split_beta split: check.splits)

lemma checkRobotErrorCode_answered:
  assumes "checkPortOpen s"
    and "wait_for (fst (sendCommandWithAnswer ''ER'' s)) evs (snd (sendCommandWithAnswer ''ER'' s))
           = (Fulfilled res, s2)"
  shows "checkRobotErrorCode evs s =
         (if parseInt10 res = Fin 0 then (Fulfilled ok_true, s2)
          else if parseInt10 res = Fin 1 then (Fulfilled (ok_false HARDWARE_ERROR), s2)
          else if parseInt10 res = Fin 2 then (Fulfilled (ok_false COMMAND_ERROR), s2)
          else (Fulfilled (ok_false UNKNOWN_ERROR), s2))"
proof -
  have nan: "isNaN n \<Longrightarrow> n \<noteq> Fin 0 \<and> n \<noteq> Fin 1 \<and> n \<noteq> Fin 2" for n
    by (cases n) simp_all
  show ?thesis
    using assms nan [of "parseInt10 res"]
    by (auto simp add: checkRobotErrorCode_def await_def Let_def split_beta)
qed

text \<open>
  C7. A failure of the operation is the failure of \<^verbatim>\<open>withCheck\<close>: the robot is untouched
  and nothing is sent, whatever the state of the port and whatever arrives; an operation
  that never completes leaves \<^verbatim>\<open>withCheck\<close> pending. After a successful operation, on an
  open port, \<^verbatim>\<open>ER\<close> is written whatever the operation returned and whatever arrives.
  When the reply \<open>res\<close> arrives, \<^verbatim>\<open>withCheck\<close> returns the operation's result unchanged
  if the reply parses to 0, and otherwise fails with CommandError carrying HardwareError
  for 1, CommandOrPositionError for 2 and Unknown for anything else. In particular the
  decimal numeral of \<open>n\<close> is mapped by \<open>n\<close>, and a reply that does not begin with a
  digit, a sign or white space is unparseable and mapped to Unknown.
\<close>

theorem withCheck_checks_error_code:
  "withCheck (Rejected e, s) evs = (Rejected e, s)
   \<and> withCheck (Pending, s) evs = (Pending, s)
   \<and> (checkPortOpen s \<longrightarrow>
        effects (snd (withCheck (Fulfilled v, s) evs)) = effects s @ [Write (''ER'' @ CRLF)])
   \<and> (checkPortOpen s
        \<and> wait_for (fst (sendCommandWithAnswer ''ER'' s)) evs (snd (sendCommandWithAnswer ''ER'' s))
            = (Fulfilled res, s2) \<longrightarrow>
        withCheck (Fulfilled v, s) evs =
          (if parseInt10 res = Fin 0 then (Fulfilled v, s2)
           else if parseInt10 res = Fin 1 then (Rejected (CommandError HARDWARE_ERROR), s2)
           else if parseInt10 res = Fin 2 then (Rejected (CommandError COMMAND_ERROR), s2)
           else (Rejected (CommandError UNKNOWN_ERROR), s2))
        \<and> (\<forall>n. res = decimal n \<longrightarrow>
              withCheck (Fulfilled v, s) evs =
                (if n = 0 then (Fulfilled v, s2)
                 else if n = 1 then (Rejected (CommandError HARDWARE_ERROR), s2)
                 else if n = 2 then (Rejected (CommandError COMMAND_ERROR), s2)
                 else (Rejected (CommandError UNKNOWN_ERROR), s2)))
        \<and> ((\<forall>c cs. res = c # cs \<longrightarrow>
               \<not> isDigit c \<and> \<not> isWhiteSpace c \<and> c \<noteq> CHR ''+'' \<and> c \<noteq> CHR ''-'') \<longrightarrow>
            withCheck (Fulfilled v, s) evs = (Rejected (CommandError UNKNOWN_ERROR), s2)))"
proof -
  have failed: "withCheck (Rejected e, s) evs = (Rejected e, s)"
    by (simp add: withCheck_def await_def)
  have suspended: "withCheck (Pending, s) evs = (Pending, s)"
    by (simp add: withCheck_def await_def)
  have sent: "effects (snd (withCheck (Fulfilled v, s) evs)) = effects s @ [Write (''ER'' @ CRLF)]"
    if "checkPortOpen s"
    using that wait_for_frame [of "fst (sendCommandWithAnswer ''ER'' s)" evs
        "snd (sendCommandWithAnswer ''ER'' s)"]
    by (simp add: withCheck_state checkRobotErrorCode_state sendCommandWithAnswer_open(1))
  have mapped: "withCheck (Fulfilled v, s) evs =
          (if parseInt10 res = Fin 0 then (Fulfilled v, s2)
           else if parseInt10 res = Fin 1 then (Rejected (CommandError HARDWARE_ERROR), s2)
           else if parseInt10 res = Fin 2 then (Rejected (CommandError COMMAND_ERROR), s2)
           else (Rejected (CommandError UNKNOWN_ERROR), s2))"
    if "checkPortOpen s"
      and "wait_for (fst (sendCommandWithAnswer ''ER'' s)) evs (snd (sendCommandWithAnswer ''ER'' s))
            = (Fulfilled res, s2)"
    by (simp add: withCheck_fulfilled await_def checkRobotErrorCode_answered [OF that])
  have numeral: "withCheck (Fulfilled v, s) evs =
                (if n = 0 then (Fulfilled v, s2)
                 else if n = 1 then (Rejected (CommandError HARDWARE_ERROR), s2)
                 else if n = 2 then (Rejected (CommandError COMMAND_ERROR), s2)
                 else (Rejected (CommandError UNKNOWN_ERROR), s2))"
    if "checkPortOpen s"
      and "wait_for (fst (sendCommandWithAnswer ''ER'' s)) evs (snd (sendCommandWithAnswer ''ER'' s))
            = (Fulfilled res, s2)"
      and "res = decimal n" for n
    using mapped [OF that(1,2)] that(3) by (simp add: parseInt10_decimal)
  have garbage: "withCheck (Fulfilled v, s) evs = (Rejected (CommandError UNKNOWN_ERROR), s2)"
    if "checkPortOpen s"
      and "wait_for (fst (sendCommandWithAnswer ''ER'' s)) evs (snd (sendCommandWithAnswer ''ER'' s))
            = (Fulfilled res, s2)"
      and "\<forall>c cs. res = c # cs \<longrightarrow>
               \<not> isDigit c \<and> \<not> isWhiteSpace c \<and> c \<noteq> CHR ''+'' \<and> c \<noteq> CHR ''-''"
    using mapped [OF that(1,2)] parseInt10_unparseable [OF that(3)] by simp
  show ?thesis
    using failed suspended sent mapped numeral garbage by blast
qed

theorem withCheck_checks_error_code_witness:
  "withCheck (Rejected NoCachedPose :: nat promise, new_robot) [] = (Rejected NoCachedPose, new_robot)
   \<and> \<not> checkPortOpen new_robot
   \<and> checkPortOpen connected_robot
   \<and> wait_for (fst (sendCommandWithAnswer ''ER'' connected_robot)) [Data (''0'' @ CRLF)]
        (snd (sendCommandWithAnswer ''ER'' connected_robot)) = (Fulfilled ''0'', answered ''ER'' ''0'')
   \<and> withCheck (Fulfilled (42::nat), connected_robot) [Data (''0'' @ CRLF)]
       = (Fulfilled 42, answered ''ER'' ''0'')
   \<and> withCheck (Fulfilled (42::nat), connected_robot) [Data (''1'' @ CRLF)]
       = (Rejected (CommandError HARDWARE_ERROR), answered ''ER'' ''1'')
   \<and> withCheck (Fulfilled (42::nat), connected_robot) [Data (''2'' @ CRLF)]
       = (Rejected (CommandError COMMAND_ERROR), answered ''ER'' ''2'')
   \<and> withCheck (Fulfilled (42::nat), connected_robot) [Data (''7'' @ CRLF)]
       = (Rejected (CommandError UNKNOWN_ERROR), answered ''ER'' ''7'')
   \<and> withCheck (Fulfilled (42::nat), connected_robot) [Data (''x'' @ CRLF)]
       = (Rejected (CommandError UNKNOWN_ERROR), answered ''ER'' ''x'')
   \<and> effects (snd (withCheck (Fulfilled (42::nat), connected_robot) [])) = [Write (''ER'' @ CRLF)]"
proof -
  have closed: "\<not> checkPortOpen new_robot"
    by (simp add: checkPortOpen_def new_robot_def)
  have failed: "withCheck (Rejected NoCachedPose :: nat promise, new_robot) []
      = (Rejected NoCachedPose, new_robot)"
    by (rule withCheck_checks_error_code [THEN conjunct1])
  have w: "wait_for (fst (sendCommandWithAnswer ''ER'' connected_robot)) [Data (r @ CRLF)]
        (snd (sendCommandWithAnswer ''ER'' connected_robot)) = (Fulfilled r, answered ''ER'' r)"
    if "trim (r @ CRLF) = r" for r
    using that by (simp add: channel_defs endsWith_def answered_def CRLF_def)
  have t: "trim (''0'' @ CRLF) = ''0''" "trim (''1'' @ CRLF) = ''1''" "trim (''2'' @ CRLF) = ''2''"
    "trim (''7'' @ CRLF) = ''7''" "trim (''x'' @ CRLF) = ''x''"
    by (simp_all add: str_defs)
  have d: "''0'' = decimal 0" "''1'' = decimal 1" "''2'' = decimal 2" "''7'' = decimal 7"
    by (simp_all add: decimal.simps digit_def)
  note answered_reply =
    withCheck_checks_error_code [where s = connected_robot and v = "42::nat",
      THEN conjunct2, THEN conjunct2, THEN conjunct2, THEN mp,
      OF conjI [OF checkPortOpen_connected w]]
  note numeral = answered_reply [THEN conjunct2, THEN conjunct1, THEN spec, THEN mp]
  have r0: "withCheck (Fulfilled (42::nat), connected_robot) [Data (''0'' @ CRLF)]
       = (Fulfilled 42, answered ''ER'' ''0'')"
    using numeral [OF t(1) d(1)] by simp
  have r1: "withCheck (Fulfilled (42::nat), connected_robot) [Data (''1'' @ CRLF)]
       = (Rejected (CommandError HARDWARE_ERROR), answered ''ER'' ''1'')"
    using numeral [OF t(2) d(2)] by simp
  have r2: "withCheck (Fulfilled (42::nat), connected_robot) [Data (''2'' @ CRLF)]
       = (Rejected (CommandError COMMAND_ERROR), answered ''ER'' ''2'')"
    using numeral [OF t(3) d(3)] by simp
  have r7: "withCheck (Fulfilled (42::nat), connected_robot) [Data (''7'' @ CRLF)]
       = (Rejected (CommandError UNKNOWN_ERROR), answered ''ER'' ''7'')"
    using numeral [OF t(4) d(4)] by simp
  have x: "\<forall>c cs. ''x'' = c # cs \<longrightarrow>
      \<not> isDigit c \<and> \<not> isWhiteSpace c \<and> c \<noteq> CHR ''+'' \<and> c \<noteq> CHR ''-''"
    by (simp add: isDigit_def isWhiteSpace_def)
  have rx: "withCheck (Fulfilled (42::nat), connected_robot) [Data (''x'' @ CRLF)]
       = (Rejected (CommandError UNKNOWN_ERROR), answered ''ER'' ''x'')"
    by (rule answered_reply [OF t(5), THEN conjunct2, THEN conjunct2, THEN mp, OF x])
  have sent: "effects (snd (withCheck (Fulfilled (42::nat), connected_robot) [])) = [Write (''ER'' @ CRLF)]"
    using withCheck_checks_error_code [where s = connected_robot and v = "42::nat" and evs = "[]",
        THEN conjunct2, THEN conjunct2, THEN conjunct1, THEN mp, OF checkPortOpen_connected]
    by (simp add: connected_robot_def)
  show ?thesis
    by (intro conjI closed failed checkPortOpen_connected w [OF t(1)] r0 r1 r2 r7 rx sent)
qed

subsection \<open>Pose query\<close>

lemma getActualPosition_forced:
  assumes "wait_for (fst (sendCommandWithAnswer ''WH'' s)) evs (snd (sendCommandWithAnswer ''WH'' s))
             = (Fulfilled response, s2)"
  shows "getActualPosition True evs s =
     (let parts = map clean_part (split_comma response);
          pose = \<lparr>pos_x = parts ! 0, pos_y = parts ! 1, pos_z = parts ! 2,
                  pos_p = parts ! 3, pos_r = parts ! 4\<rparr>
      in if length (split_comma response) < 5 then (Rejected MalformedResponse, s2)
         else (Fulfilled (Suc (length (objects s2))),
               s2\<lparr>position := Some (length (objects s2)),
                  objects := objects s2 @ [pose, pose]\<rparr>))"
  using assms
  by (simp add: getActualPosition_def await_def Let_def split_beta new_object_def nth_append)

text \<open>
  C4, amended. When the reply to \<^verbatim>\<open>WH\<close> arrives, the forced pose query splits it at the
  commas and parses each field after trimming it, removing its first \<^verbatim>\<open>+\<close> and prefixing
  a leading decimal point with \<^verbatim>\<open>0\<close>. It fails with MalformedResponse exactly when there
  are fewer than five fields. Otherwise it succeeds: the pose of the first five values
  is stored in the cache as a new object, and a reference to a second new object with
  the same values is returned.
\<close>

theorem getActualPosition_parses_and_caches:
  assumes "wait_for (fst (sendCommandWithAnswer ''WH'' s)) evs (snd (sendCommandWithAnswer ''WH'' s))
             = (Fulfilled response, s2)"
  shows "getActualPosition True evs s =
     (let parts = map clean_part (split_comma response);
          pose = \<lparr>pos_x = parts ! 0, pos_y = parts ! 1, pos_z = parts ! 2,
                  pos_p = parts ! 3, pos_r = parts ! 4\<rparr>
      in if length (split_comma response) < 5 then (Rejected MalformedResponse, s2)
         else (Fulfilled (Suc (length (objects s2))),
               s2\<lparr>position := Some (length (objects s2)),
                  objects := objects s2 @ [pose, pose]\<rparr>))"
  using assms by (rule getActualPosition_forced)

theorem getActualPosition_parses_and_caches_witness:
  "wait_for (fst (sendCommandWithAnswer ''WH'' connected_robot)) [Data (WH_response @ CRLF)]
        (snd (sendCommandWithAnswer ''WH'' connected_robot))
     = (Fulfilled WH_response, answered ''WH'' WH_response)
   \<and> getActualPosition True [Data (WH_response @ CRLF)] connected_robot =
       (Fulfilled 1, (answered ''WH'' WH_response)\<lparr>position := Some 0, objects := [WH_pose, WH_pose]\<rparr>)"
proof -
  have w: "wait_for (fst (sendCommandWithAnswer ''WH'' connected_robot)) [Data (WH_response @ CRLF)]
        (snd (sendCommandWithAnswer ''WH'' connected_robot))
     = (Fulfilled WH_response, answered ''WH'' WH_response)"
    by (simp add: channel_defs str_defs answered_def WH_response_def)
  have f: "split_comma WH_response = [''+012.300'', '' .500'', ''-001.000'', ''+000.000'', ''+090.000'']"
    by (simp add: WH_response_def)
  have c: "clean_part ''+012.300'' = Fin 12.3" "clean_part '' .500'' = Fin 0.5"
    "clean_part ''-001.000'' = Fin (- 1)" "clean_part ''+000.000'' = Fin 0"
    "clean_part ''+090.000'' = Fin 90"
    by (simp_all add: str_defs parse_defs)
  have "getActualPosition True [Data (WH_response @ CRLF)] connected_robot =
       (Fulfilled 1, (answered ''WH'' WH_response)\<lparr>position := Some 0, objects := [WH_pose, WH_pose]\<rparr>)"
    using getActualPosition_parses_and_caches [OF w] unfolding f
    by (simp add: c Let_def WH_pose_def answered_def connected_robot_def)
  with w show ?thesis
    by blast
qed

text \<open>
  C4, as stated, fails: none of the five fields of \<^verbatim>\<open>a,b,c,d,e\<close> parses as a number, and
  the query succeeds, caching and returning a pose of five NaN.
\<close>

theorem getActualPosition_accepts_unparseable_fields:
  "clean_part ''a'' = NaN
   \<and> getActualPosition True [Data (''a,b,c,d,e'' @ CRLF)] connected_robot =
       (Fulfilled 1, (answered ''WH'' ''a,b,c,d,e'')\<lparr>position := Some 0, objects := [NaN_pose, NaN_pose]\<rparr>)"
proof -
  have c: "clean_part ''a'' = NaN" "clean_part ''b'' = NaN" "clean_part ''c'' = NaN"
    "clean_part ''d'' = NaN" "clean_part ''e'' = NaN"
    by (simp_all add: str_defs parse_defs)
  have w: "wait_for (fst (sendCommandWithAnswer ''WH'' connected_robot)) [Data (''a,b,c,d,e'' @ CRLF)]
        (snd (sendCommandWithAnswer ''WH'' connected_robot))
     = (Fulfilled ''a,b,c,d,e'', answered ''WH'' ''a,b,c,d,e'')"
    by (simp add: channel_defs str_defs answered_def)
  have "getActualPosition True [Data (''a,b,c,d,e'' @ CRLF)] connected_robot =
       (Fulfilled 1, (answered ''WH'' ''a,b,c,d,e'')\<lparr>position := Some 0, objects := [NaN_pose, NaN_pose]\<rparr>)"
    using getActualPosition_forced [OF w]
    by (simp add: c Let_def NaN_pose_def answered_def connected_robot_def)
  with c(1) show ?thesis
    by blast
qed

subsection \<open>Overlapping requests\<close>

text \<open>
  C2, as stated, fails: a second request issued while the first is still pending is
  accepted, a second listener is registered, and the one response that arrives settles
  both promises.
\<close>

theorem second_request_is_accepted:
  "state_of (Waiting 0) (snd (sendCommandWithAnswer ''WH'' connected_robot)) = Pending
   \<and> fst (sendCommandWithAnswer ''ER'' (snd (sendCommandWithAnswer ''WH'' connected_robot))) = Waiting 1
   \<and> port two_requests = Some \<lparr>isOpen = True, listeners = [new_listener, new_listener]\<rparr>
   \<and> effects two_requests = [Write (''WH'' @ CRLF), Write (''ER'' @ CRLF)]
   \<and> state_of (Waiting 0) (occur (Data (''0'' @ CRLF)) two_requests) = Fulfilled ''0''
   \<and> state_of (Waiting 1) (occur (Data (''0'' @ CRLF)) two_requests) = Fulfilled ''0''"
  by (simp add: two_requests_def channel_defs str_defs)

text \<open>
  C2, amended. On an open port a \<^verbatim>\<open>sendCommandWithAnswer\<close> issued while earlier requests
  are still pending does not fail: it writes its command and registers one more
  listener after those already registered, which stay registered, and a chunk that
  arrives is handed to every one of them.
\<close>

theorem sendCommandWithAnswer_adds_listener:
  assumes "port s = Some pt" and "isOpen pt"
  shows "sendCommandWithAnswer command s =
           (Waiting (length (listeners pt)),
            s\<lparr>port := Some (pt\<lparr>listeners := listeners pt @ [new_listener]\<rparr>),
              effects := effects s @ [Write (command @ CRLF)]\<rparr>)
         \<and> emit (Data d) (pt\<lparr>listeners := listeners pt @ [new_listener]\<rparr>) =
             pt\<lparr>listeners := map (on_data d) (listeners pt) @ [on_data d new_listener]\<rparr>"
  using assms by (simp add: sendCommandWithAnswer_def port_write_def)

theorem sendCommandWithAnswer_adds_listener_witness:
  "port (answered ''WH'' ''OK'') =
     Some \<lparr>isOpen = True,
           listeners = [\<lparr>stringBuffer = [], responses = [''OK''], answer = Fulfilled ''OK''\<rparr>]\<rparr>
   \<and> fst (sendCommandWithAnswer ''ER'' (answered ''WH'' ''OK'')) = Waiting 1
   \<and> port (snd (sendCommandWithAnswer ''ER'' (answered ''WH'' ''OK''))) =
       Some \<lparr>isOpen = True,
             listeners = [\<lparr>stringBuffer = [], responses = [''OK''], answer = Fulfilled ''OK''\<rparr>,
                          new_listener]\<rparr>"
proof -
  have p: "port (answered ''WH'' ''OK'') =
     Some \<lparr>isOpen = True,
           listeners = [\<lparr>stringBuffer = [], responses = [''OK''], answer = Fulfilled ''OK''\<rparr>]\<rparr>"
    by (simp add: answered_def connected_robot_def)
  have "sendCommandWithAnswer ''ER'' (answered ''WH'' ''OK'') =
      (Waiting 1,
       (answered ''WH'' ''OK'')\<lparr>port := Some \<lparr>isOpen = True,
             listeners = [\<lparr>stringBuffer = [], responses = [''OK''], answer = Fulfilled ''OK''\<rparr>,
                          new_listener]\<rparr>,
          effects := effects (answered ''WH'' ''OK'') @ [Write (''ER'' @ CRLF)]\<rparr>)"
    using sendCommandWithAnswer_adds_listener [OF p, of "''ER''"] by simp
  with p show ?thesis
    by simp
qed

subsection \<open>Relative moves\<close>

lemma moveDelta_without_pose:
  "position s = None \<Longrightarrow> moveDelta dx dy dz dp dr n s = (Rejected NoCachedPose, s)"
  by (simp add: moveDelta_def)

lemma moveDelta_five_arguments:
  "position s = Some a \<Longrightarrow>
   moveDelta dx dy dz (Some dp) (Some dr) n s =
     moveTo \<lparr>pos_x = add (pos_x (objects s ! a)) dx, pos_y = add (pos_y (objects s ! a)) dy,
             pos_z = add (pos_z (objects s ! a)) dz, pos_p = add (pos_p (objects s ! a)) dp,
             pos_r = add (pos_r (objects s ! a)) dr\<rparr>
       (nullish n (Fin 0)) s"
  by (simp add: moveDelta_def nullish_def Let_def)

lemma moveDelta_three_arguments:
  "position s = Some a \<Longrightarrow>
   moveDelta dx dy dz n None None s =
     moveTo \<lparr>pos_x = add (pos_x (objects s ! a)) dx, pos_y = add (pos_y (objects s ! a)) dy,
             pos_z = add (pos_z (objects s ! a)) dz,
             pos_p = add (pos_p (objects s ! a)) (pos_p (objects s ! a)),
             pos_r = add (pos_r (objects s ! a)) (pos_r (objects s ! a))\<rparr>
       (nullish n (Fin 0)) s"
  by (simp add: moveDelta_def nullish_def Let_def)

text \<open>
  C1 fails on the code. With the cached pose \<open>{x:10, y:0, z:0, p:5, r:5}\<close>, the
  three-argument \<^verbatim>\<open>moveDelta(1, 2, 3)\<close> takes the cached pitch and roll as the deltas and
  adds them to the cached pitch and roll: it moves to \<open>{x:11, y:2, z:3, p:10, r:10}\<close>.
\<close>

theorem moveDelta_three_arguments_doubles_pitch_and_roll:
  "moveDelta (Fin 1) (Fin 2) (Fin 3) None None None robot_at_known_pose =
     (Fulfilled (),
      robot_at_known_pose
        \<lparr>position := Some 1,
         objects := [known_pose,
                     \<lparr>pos_x = Fin 11, pos_y = Fin 2, pos_z = Fin 3, pos_p = Fin 10, pos_r = Fin 10\<rparr>],
         effects := [Write (''MP 11.0, 2.0, 3.0, 10.0, 10.0'' @ CRLF), Delay 100]\<rparr>)"
  by (simp add: moveDelta_def moveTo_def await_def cache_position_def new_object_def
      sendCommandNoAnswer_def delay_def port_write_def checkPortOpen_def coordinates_def fmt_def
      nullish_def Let_def robot_at_known_pose_def known_pose_def connected_robot_def decimal.simps
      digit_def)

subsection \<open>References to the cached pose\<close>

lemma getActualPosition_cached:
  "position s = Some a \<Longrightarrow>
   getActualPosition False evs s =
     (Fulfilled (length (objects s)), s\<lparr>objects := objects s @ [objects s ! a]\<rparr>)"
  by (simp add: getActualPosition_def new_object_def)

lemma assign_x_fresh_copy:
  "position s = Some a \<Longrightarrow> a < length (objects s) \<Longrightarrow>
   cached_pose (assign_x (length (objects s)) v (snd (getActualPosition False evs s)))
     = cached_pose s"
  by (simp add: getActualPosition_cached assign_x_def cached_pose_def nth_append)

lemma assign_x_shared_reference:
  "getPosition s = Some a \<Longrightarrow> a < length (objects s) \<Longrightarrow>
   cached_pose (assign_x a v s) = Some ((objects s ! a)\<lparr>pos_x := v\<rparr>)"
  by (simp add: getPosition_def assign_x_def cached_pose_def)

text \<open>
  C8 fails on the code. \<^verbatim>\<open>getPosition\<close> returns the reference that the robot holds, so an
  assignment through it changes the cached pose; \<^verbatim>\<open>getActualPosition(false)\<close> returns a
  reference to a new object, and an assignment through that one leaves the cache alone.
\<close>

theorem getPosition_shares_cached_object:
  "cached_pose robot_at_known_pose = Some known_pose
   \<and> getPosition robot_at_known_pose = Some 0
   \<and> position robot_at_known_pose = Some 0
   \<and> cached_pose (assign_x 0 (Fin 99) robot_at_known_pose) = Some (known_pose\<lparr>pos_x := Fin 99\<rparr>)
   \<and> fst (getActualPosition False [] robot_at_known_pose) = Fulfilled 1
   \<and> cached_pose (assign_x 1 (Fin 99) (snd (getActualPosition False [] robot_at_known_pose)))
       = Some known_pose"
  by (simp add: cached_pose_def getPosition_def assign_x_def getActualPosition_def new_object_def
      robot_at_known_pose_def connected_robot_def)

end
